theory Spec2Isabelle
  imports Main "HOL-Library.Word"
begin

section \<open>Values shared by the bundle service\<close>

text \<open>
  The gRPC status codes (package \<open>codes\<close>), in their numeric order: \<open>OK\<close> is 0,
  \<open>Unknown\<close> 2, \<open>InvalidArgument\<close> 3, \<open>NotFound\<close> 5, \<open>Unimplemented\<close> 12 and
  \<open>Internal\<close> 13.
\<close>

datatype Code =
    OK | Canceled | Unknown | InvalidArgument | DeadlineExceeded | NotFound
  | AlreadyExists | PermissionDenied | ResourceExhausted | FailedPrecondition
  | Aborted | OutOfRange | Unimplemented | Internal | Unavailable | DataLoss
  | Unauthenticated

text \<open>
  A Go \<open>error\<close> value is either an error made by \<open>status.Error\<close>/\<open>status.Errorf\<close>,
  which carries a code and a message, or any other error, which only has its text.
  The arguments handed to a format string are strings (\<open>%q\<close>) or errors (\<open>%v\<close>).
\<close>

datatype go_error = StatusError Code string | PlainError string

datatype fmt_arg = ArgString string | ArgError go_error

text \<open>
  The packages \<open>spiffeid\<close> (go-spiffe) and \<open>fmt\<close> are libraries outside the repository.
  Their functions are taken as parameters: a trust domain is a value of the type \<open>'td\<close>,
  \<open>TrustDomainFromString\<close> parses one or returns an error, \<open>String\<close> is its name form,
  \<open>IDString\<close> its SPIFFE ID form, \<open>Compare\<close> the three-way comparison, and \<open>Sprintf\<close>
  renders a format string.
\<close>

record 'td lib =
  TrustDomainFromString :: "string \<Rightarrow> go_error + 'td"
  String :: "'td \<Rightarrow> string"
  IDString :: "'td \<Rightarrow> string"
  Compare :: "'td \<Rightarrow> 'td \<Rightarrow> int"
  Sprintf :: "string \<Rightarrow> fmt_arg list \<Rightarrow> string"

definition status_Error :: "Code \<Rightarrow> string \<Rightarrow> go_error" where
  "status_Error c msg = StatusError c msg"

definition status_Errorf :: "('td, 'x) lib_scheme \<Rightarrow> Code \<Rightarrow> string \<Rightarrow> fmt_arg list \<Rightarrow> go_error" where
  "status_Errorf l c format a = StatusError c (Sprintf l format a)"

subsection \<open>Messages of the datastore and of the API\<close>

text \<open>\<open>common.Certificate\<close>, \<open>common.PublicKey\<close> and \<open>common.Bundle\<close>, as the datastore keeps them.\<close>

record Certificate =
  DerBytes :: "8 word list"

record PublicKey =
  PkixBytes :: "8 word list"
  Kid :: string
  NotAfter :: "64 word"

record common_Bundle =
  TrustDomainId :: string
  RootCas :: "Certificate list"
  JwtSigningKeys :: "PublicKey list"
  c_RefreshHint :: "64 word"

text \<open>\<open>types.X509Certificate\<close>, \<open>types.JWTKey\<close>, \<open>types.Bundle\<close> and \<open>types.BundleMask\<close> of the API.\<close>

record X509Certificate =
  Asn1 :: "8 word list"

record JWTKey =
  PublicKey :: "8 word list"
  KeyId :: string
  ExpiresAt :: "64 word"

record Bundle =
  TrustDomain :: string
  RefreshHint :: "64 word"
  SequenceNumber :: "64 word"
  X509Authorities :: "X509Certificate list"
  JwtAuthorities :: "JWTKey list"

record BundleMask =
  m_TrustDomain :: bool
  m_RefreshHint :: bool
  m_SequenceNumber :: bool
  m_X509Authorities :: bool
  m_JwtAuthorities :: bool

definition defaultMask :: BundleMask where
  "defaultMask = \<lparr> m_TrustDomain = True, m_RefreshHint = True, m_SequenceNumber = True,
                   m_X509Authorities = True, m_JwtAuthorities = True \<rparr>"

text \<open>The zero value \<open>&types.Bundle{}\<close>: empty string, zero numbers, nil slices.\<close>

definition empty_Bundle :: Bundle where
  "empty_Bundle = \<lparr> TrustDomain = [], RefreshHint = 0, SequenceNumber = 0,
                    X509Authorities = [], JwtAuthorities = [] \<rparr>"

subsection \<open>applyMask\<close>

text \<open>
  A nil mask is \<open>None\<close>. The two loops append one converted element per element of the
  source slice, which is \<open>map\<close>. The only failure is the parse of the stored
  trust domain id, attempted only when the mask asks for the trust domain.
\<close>

definition applyMask ::
  "('td, 'x) lib_scheme \<Rightarrow> common_Bundle \<Rightarrow> BundleMask option \<Rightarrow> go_error + Bundle" where
  "applyMask l b mask0 =
     (let mask = (case mask0 of None \<Rightarrow> defaultMask | Some m \<Rightarrow> m);
          out = empty_Bundle
      in case (if m_TrustDomain mask
               then (case TrustDomainFromString l (TrustDomainId b) of
                       Inl err \<Rightarrow> Inl err
                     | Inr td \<Rightarrow> Inr (out\<lparr>TrustDomain := String l td\<rparr>))
               else Inr out) of
           Inl err \<Rightarrow> Inl err
         | Inr out \<Rightarrow>
             (let out = (if m_RefreshHint mask then out\<lparr>RefreshHint := c_RefreshHint b\<rparr> else out);
                  out = (if m_SequenceNumber mask then out\<lparr>SequenceNumber := 0\<rparr> else out);
                  out = (if m_X509Authorities mask
                         then out\<lparr>X509Authorities := map (\<lambda>rootCA. \<lparr>Asn1 = DerBytes rootCA\<rparr>) (RootCas b)\<rparr>
                         else out);
                  out = (if m_JwtAuthorities mask
                         then out\<lparr>JwtAuthorities :=
                                map (\<lambda>k. \<lparr>PublicKey = PkixBytes k, KeyId = Kid k, ExpiresAt = NotAfter k\<rparr>)
                                    (JwtSigningKeys b)\<rparr>
                         else out)
              in Inr out))"


subsection \<open>The datastore\<close>

text \<open>
  The datastore is an interface whose implementation is outside the repository. It is
  a record of three operations over a store of type \<open>'ds\<close>; each returns an error or a
  response, and the new store. A nil \<open>Bundle\<close> or \<open>Pagination\<close> pointer is \<open>None\<close>.
\<close>

datatype DeleteBundleRequest_Mode = RESTRICT | DELETE | DISSOCIATE

record FetchBundleRequest =
  fetch_TrustDomainId :: string

record FetchBundleResponse =
  fetch_Bundle :: "common_Bundle option"

record Pagination =
  Token :: string
  PageSize :: "32 word"

record ListBundlesRequest =
  req_Pagination :: "Pagination option"

record ListBundlesResponse =
  ds_Bundles :: "common_Bundle list"
  resp_Pagination :: "Pagination option"

record DeleteBundleRequest =
  delete_TrustDomainId :: string
  Mode :: DeleteBundleRequest_Mode

record DeleteBundleResponse =
  delete_Bundle :: "common_Bundle option"

record 'ds DataStore =
  FetchBundle :: "FetchBundleRequest \<Rightarrow> 'ds \<Rightarrow> (go_error + FetchBundleResponse) \<times> 'ds"
  ListBundles :: "ListBundlesRequest \<Rightarrow> 'ds \<Rightarrow> (go_error + ListBundlesResponse) \<times> 'ds"
  DeleteBundle :: "DeleteBundleRequest \<Rightarrow> 'ds \<Rightarrow> (go_error + DeleteBundleResponse) \<times> 'ds"

text \<open>
  What a service call does to the outside is the store it leaves and the datastore calls
  it made, in order.
\<close>

datatype ds_call =
    CallFetchBundle FetchBundleRequest
  | CallListBundles ListBundlesRequest
  | CallDeleteBundle DeleteBundleRequest

record 'ds world =
  store :: 'ds
  calls :: "ds_call list"

record ('td, 'ds) Service =
  ds :: "'ds DataStore"
  td :: "'td"

definition ds_FetchBundle ::
  "('td, 'ds) Service \<Rightarrow> FetchBundleRequest \<Rightarrow> 'ds world \<Rightarrow> (go_error + FetchBundleResponse) \<times> 'ds world" where
  "ds_FetchBundle s req w =
     (case FetchBundle (ds s) req (store w) of
        (r, st) \<Rightarrow> (r, \<lparr> store = st, calls = calls w @ [CallFetchBundle req] \<rparr>))"

definition ds_ListBundles ::
  "('td, 'ds) Service \<Rightarrow> ListBundlesRequest \<Rightarrow> 'ds world \<Rightarrow> (go_error + ListBundlesResponse) \<times> 'ds world" where
  "ds_ListBundles s req w =
     (case ListBundles (ds s) req (store w) of
        (r, st) \<Rightarrow> (r, \<lparr> store = st, calls = calls w @ [CallListBundles req] \<rparr>))"

definition ds_DeleteBundle ::
  "('td, 'ds) Service \<Rightarrow> DeleteBundleRequest \<Rightarrow> 'ds world \<Rightarrow> (go_error + DeleteBundleResponse) \<times> 'ds world" where
  "ds_DeleteBundle s req w =
     (case DeleteBundle (ds s) req (store w) of
        (r, st) \<Rightarrow> (r, \<lparr> store = st, calls = calls w @ [CallDeleteBundle req] \<rparr>))"

subsection \<open>Package api: Status, CreateStatus, StatusFromError\<close>

record Status =
  Code :: Code
  Message :: string

definition CreateStatus :: "('td, 'x) lib_scheme \<Rightarrow> Code \<Rightarrow> string \<Rightarrow> fmt_arg list \<Rightarrow> Status" where
  "CreateStatus l code format a = \<lparr> Code = code, Message = Sprintf l format a \<rparr>"

text \<open>
  \<open>status.FromError\<close> of the gRPC library: the status of a status error; for any other
  error a status with code \<open>Unknown\<close> and the error's text.
\<close>

fun status_FromError :: "go_error \<Rightarrow> Code \<times> string" where
  "status_FromError (StatusError c msg) = (c, msg)"
| "status_FromError (PlainError msg) = (Unknown, msg)"

definition StatusFromError :: "('td, 'x) lib_scheme \<Rightarrow> go_error option \<Rightarrow> Status option" where
  "StatusFromError l err =
     (case err of
        None \<Rightarrow> None
      | Some e \<Rightarrow> (case status_FromError e of (c, msg) \<Rightarrow> Some (CreateStatus l c msg [])))"

section \<open>The bundle service\<close>

record GetBundleRequest =
  gb_OutputMask :: "BundleMask option"

record GetFederatedBundleRequest =
  gfb_TrustDomain :: string
  gfb_OutputMask :: "BundleMask option"

record ListFederatedBundlesRequest =
  lfb_OutputMask :: "BundleMask option"
  lfb_PageSize :: "32 word"
  lfb_PageToken :: string

record ListFederatedBundlesResponse =
  Bundles :: "Bundle list"
  NextPageToken :: string

record BatchDeleteFederatedBundleRequest =
  TrustDomains :: "string list"

record BatchDeleteFederatedBundleResponse_Result =
  r_Status :: "Status option"
  r_TrustDomain :: string

record BatchDeleteFederatedBundleResponse =
  Results :: "BatchDeleteFederatedBundleResponse_Result list"

text \<open>Logging has no effect on results or on the datastore and is left out.\<close>

definition GetBundle ::
  "('td, 'x) lib_scheme \<Rightarrow> ('td, 'ds) Service \<Rightarrow> GetBundleRequest \<Rightarrow> 'ds world
     \<Rightarrow> (go_error + Bundle) \<times> 'ds world" where
  "GetBundle l s req w =
     (case ds_FetchBundle s \<lparr> fetch_TrustDomainId = IDString l (td s) \<rparr> w of
        (Inl err, w1) \<Rightarrow>
          (Inl (status_Errorf l Internal ''failed to fetch bundle: %v'' [ArgError err]), w1)
      | (Inr dsResp, w1) \<Rightarrow>
          (case fetch_Bundle dsResp of
             None \<Rightarrow> (Inl (status_Error NotFound ''bundle not found''), w1)
           | Some dsBundle \<Rightarrow>
               (case applyMask l dsBundle (gb_OutputMask req) of
                  Inl err \<Rightarrow>
                    (Inl (status_Errorf l Internal ''failed to apply mask: %v'' [ArgError err]), w1)
                | Inr b \<Rightarrow> (Inr b, w1))))"

definition GetFederatedBundle ::
  "('td, 'x) lib_scheme \<Rightarrow> ('td, 'ds) Service \<Rightarrow> GetFederatedBundleRequest \<Rightarrow> 'ds world
     \<Rightarrow> (go_error + Bundle) \<times> 'ds world" where
  "GetFederatedBundle l s req w =
     (case TrustDomainFromString l (gfb_TrustDomain req) of
        Inl err \<Rightarrow>
          (Inl (status_Errorf l InvalidArgument
                  ''trust domain argument is not a valid SPIFFE ID: %q''
                  [ArgString (gfb_TrustDomain req)]), w)
      | Inr t \<Rightarrow>
          if Compare l (td s) t = 0
          then (Inl (status_Errorf l InvalidArgument
                       ''%q is this server own trust domain, use GetBundle RPC instead''
                       [ArgString (String l t)]), w)
          else
            (case ds_FetchBundle s \<lparr> fetch_TrustDomainId = IDString l t \<rparr> w of
               (Inl err, w1) \<Rightarrow>
                 (Inl (status_Errorf l Internal ''failed to fetch bundle: %v'' [ArgError err]), w1)
             | (Inr dsResp, w1) \<Rightarrow>
                 (case fetch_Bundle dsResp of
                    None \<Rightarrow>
                      (Inl (status_Errorf l NotFound ''bundle for %q not found''
                              [ArgString (gfb_TrustDomain req)]), w1)
                  | Some dsBundle \<Rightarrow>
                      (case applyMask l dsBundle (gfb_OutputMask req) of
                         Inl err \<Rightarrow>
                           (Inl (status_Errorf l Internal ''failed to apply mask: %v'' [ArgError err]), w1)
                       | Inr b \<Rightarrow> (Inr b, w1)))))"

text \<open>
  The loop of \<open>ListFederatedBundles\<close> over the bundles of the datastore's response;
  \<open>acc\<close> is \<open>resp.Bundles\<close> so far. The first stored id that does not parse ends the
  call, the server's own bundle is passed over.
\<close>

fun listLoop ::
  "('td, 'x) lib_scheme \<Rightarrow> 'td \<Rightarrow> BundleMask option \<Rightarrow> common_Bundle list \<Rightarrow> Bundle list
     \<Rightarrow> go_error + Bundle list" where
  "listLoop l own outputMask [] acc = Inr acc"
| "listLoop l own outputMask (dsBundle # rest) acc =
     (case TrustDomainFromString l (TrustDomainId dsBundle) of
        Inl err \<Rightarrow>
          Inl (status_Errorf l Internal ''bundle has an invalid trust domain ID: %q''
                 [ArgString (TrustDomainId dsBundle)])
      | Inr t \<Rightarrow>
          if Compare l own t = 0 then listLoop l own outputMask rest acc
          else (case applyMask l dsBundle outputMask of
                  Inl err \<Rightarrow>
                    Inl (status_Errorf l Internal ''failed to apply mask: %v'' [ArgError err])
                | Inr b \<Rightarrow> listLoop l own outputMask rest (acc @ [b])))"

text \<open>
  The request \<open>listReq\<close> that \<open>ListFederatedBundles\<close> builds for the datastore:
  pagination is set only for a positive page size (\<open>PageSize\<close> is a signed 32-bit number).
\<close>

definition listReq :: "ListFederatedBundlesRequest \<Rightarrow> ListBundlesRequest" where
  "listReq req =
     (if 0 < sint (lfb_PageSize req)
      then \<lparr> req_Pagination = Some \<lparr> Token = lfb_PageToken req, PageSize = lfb_PageSize req \<rparr> \<rparr>
      else \<lparr> req_Pagination = None \<rparr>)"

definition ListFederatedBundles ::
  "('td, 'x) lib_scheme \<Rightarrow> ('td, 'ds) Service \<Rightarrow> ListFederatedBundlesRequest \<Rightarrow> 'ds world
     \<Rightarrow> (go_error + ListFederatedBundlesResponse) \<times> 'ds world" where
  "ListFederatedBundles l s req w =
     (case ds_ListBundles s (listReq req) w of
        (Inl err, w1) \<Rightarrow>
          (Inl (status_Errorf l Internal ''failed to list bundles: %v'' [ArgError err]), w1)
      | (Inr dsResp, w1) \<Rightarrow>
          (let token = (case resp_Pagination dsResp of None \<Rightarrow> [] | Some p \<Rightarrow> Token p)
           in case listLoop l (td s) (lfb_OutputMask req) (ds_Bundles dsResp) [] of
                Inl err \<Rightarrow> (Inl err, w1)
              | Inr bs \<Rightarrow> (Inr \<lparr> Bundles = bs, NextPageToken = token \<rparr>, w1)))"

definition deleteFederatedBundle ::
  "('td, 'x) lib_scheme \<Rightarrow> ('td, 'ds) Service \<Rightarrow> string \<Rightarrow> 'ds world
     \<Rightarrow> go_error option \<times> 'ds world" where
  "deleteFederatedBundle l s trustDomain w =
     (case TrustDomainFromString l trustDomain of
        Inl err \<Rightarrow>
          (Some (status_Errorf l InvalidArgument ''malformed trust domain: %v'' [ArgError err]), w)
      | Inr t \<Rightarrow>
          if Compare l (td s) t = 0
          then (Some (status_Error InvalidArgument ''no possible to delete server bundle''), w)
          else
            (case ds_DeleteBundle s \<lparr> delete_TrustDomainId = String l t, Mode = RESTRICT \<rparr> w of
               (Inl err, w1) \<Rightarrow>
                 (Some (status_Errorf l Internal ''failed to delete Federated Bundle: %v''
                          [ArgError err]), w1)
             | (Inr _, w1) \<Rightarrow> (None, w1)))"

text \<open>The loop of \<open>BatchDeleteFederatedBundle\<close>; \<open>results\<close> is the slice built so far.\<close>

fun batchDeleteLoop ::
  "('td, 'x) lib_scheme \<Rightarrow> ('td, 'ds) Service \<Rightarrow> string list
     \<Rightarrow> BatchDeleteFederatedBundleResponse_Result list \<Rightarrow> 'ds world
     \<Rightarrow> BatchDeleteFederatedBundleResponse_Result list \<times> 'ds world" where
  "batchDeleteLoop l s [] results w = (results, w)"
| "batchDeleteLoop l s (trustDomain # rest) results w =
     (case deleteFederatedBundle l s trustDomain w of
        (err, w1) \<Rightarrow>
          batchDeleteLoop l s rest
            (results @ [\<lparr> r_Status = StatusFromError l err, r_TrustDomain = trustDomain \<rparr>]) w1)"

definition BatchDeleteFederatedBundle ::
  "('td, 'x) lib_scheme \<Rightarrow> ('td, 'ds) Service \<Rightarrow> BatchDeleteFederatedBundleRequest \<Rightarrow> 'ds world
     \<Rightarrow> (go_error + BatchDeleteFederatedBundleResponse) \<times> 'ds world" where
  "BatchDeleteFederatedBundle l s req w =
     (if length (TrustDomains req) = 0
      then (Inl (status_Error InvalidArgument ''request missing trust domains''), w)
      else (case batchDeleteLoop l s (TrustDomains req) [] w of
              (results, w1) \<Rightarrow> (Inr \<lparr> Results = results \<rparr>, w1)))"


text \<open>The repository keys that a sequence of datastore calls fetched and deleted.\<close>

fun fetch_keys :: "ds_call list \<Rightarrow> string list" where
  "fetch_keys [] = []"
| "fetch_keys (CallFetchBundle req # cs) = fetch_TrustDomainId req # fetch_keys cs"
| "fetch_keys (c # cs) = fetch_keys cs"

fun delete_keys :: "ds_call list \<Rightarrow> string list" where
  "delete_keys [] = []"
| "delete_keys (CallDeleteBundle req # cs) = delete_TrustDomainId req # delete_keys cs"
| "delete_keys (c # cs) = delete_keys cs"

subsection \<open>The view that the specification describes\<close>

text \<open>
  The specification's words for mask application: each of the four content fields is
  copied into the view iff its flag is set, and the sequence number is always zero.
  \<open>name\<close> is the canonical name of the bundle's trust domain.
\<close>

definition masked_view :: "string \<Rightarrow> common_Bundle \<Rightarrow> BundleMask \<Rightarrow> Bundle" where
  "masked_view name b k =
     \<lparr> TrustDomain = (if m_TrustDomain k then name else []),
       RefreshHint = (if m_RefreshHint k then c_RefreshHint b else 0),
       SequenceNumber = 0,
       X509Authorities = (if m_X509Authorities k
                          then map (\<lambda>c. \<lparr>Asn1 = DerBytes c\<rparr>) (RootCas b) else []),
       JwtAuthorities = (if m_JwtAuthorities k
                         then map (\<lambda>j. \<lparr>PublicKey = PkixBytes j, KeyId = Kid j, ExpiresAt = NotAfter j\<rparr>)
                                  (JwtSigningKeys b)
                         else []) \<rparr>"

subsection \<open>A sample library and a fake datastore\<close>

text \<open>
  Concrete parameters on which the service can be run: a trust domain is its name, a
  name made of lower-case letters, digits, dots, dashes and underscores, optionally
  written with the \<open>spiffe://\<close> scheme; the SPIFFE ID form puts the scheme in front.
  The fake datastore keeps a list of bundles keyed by \<open>TrustDomainId\<close> and answers a
  delete of an absent key with a \<open>NotFound\<close> status error, as the datastore of the tests does.
\<close>

definition sample_valid_char :: "char \<Rightarrow> bool" where
  "sample_valid_char c = (c \<in> set ''abcdefghijklmnopqrstuvwxyz0123456789.-_'')"

definition sample_TrustDomainFromString :: "string \<Rightarrow> go_error + string" where
  "sample_TrustDomainFromString s =
     (let name = (if take 9 s = ''spiffe://'' then drop 9 s else s)
      in if name \<noteq> [] \<and> list_all sample_valid_char name then Inr name
         else Inl (PlainError ''spiffeid: unable to parse''))"

fun sample_arg :: "fmt_arg \<Rightarrow> string" where
  "sample_arg (ArgString s) = s"
| "sample_arg (ArgError (StatusError c msg)) = msg"
| "sample_arg (ArgError (PlainError msg)) = msg"

definition sample_lib :: "string lib" where
  "sample_lib = \<lparr> TrustDomainFromString = sample_TrustDomainFromString,
                  String = (\<lambda>t. t),
                  IDString = (\<lambda>t. ''spiffe://'' @ t),
                  Compare = (\<lambda>a b. if a = b then 0 else 1),
                  Sprintf = (\<lambda>format a. format @ concat (map sample_arg a)) \<rparr>"

definition fake_FetchBundle ::
  "FetchBundleRequest \<Rightarrow> common_Bundle list \<Rightarrow> (go_error + FetchBundleResponse) \<times> common_Bundle list" where
  "fake_FetchBundle req st =
     (Inr \<lparr> fetch_Bundle = find (\<lambda>b. TrustDomainId b = fetch_TrustDomainId req) st \<rparr>, st)"

definition fake_ListBundles ::
  "ListBundlesRequest \<Rightarrow> common_Bundle list \<Rightarrow> (go_error + ListBundlesResponse) \<times> common_Bundle list" where
  "fake_ListBundles req st = (Inr \<lparr> ds_Bundles = st, resp_Pagination = None \<rparr>, st)"

definition fake_DeleteBundle ::
  "DeleteBundleRequest \<Rightarrow> common_Bundle list \<Rightarrow> (go_error + DeleteBundleResponse) \<times> common_Bundle list" where
  "fake_DeleteBundle req st =
     (case find (\<lambda>b. TrustDomainId b = delete_TrustDomainId req) st of
        None \<Rightarrow> (Inl (StatusError NotFound ''no such bundle''), st)
      | Some b \<Rightarrow> (Inr \<lparr> delete_Bundle = Some b \<rparr>,
                   filter (\<lambda>b. TrustDomainId b \<noteq> delete_TrustDomainId req) st))"

definition fakedatastore :: "common_Bundle list DataStore" where
  "fakedatastore = \<lparr> FetchBundle = fake_FetchBundle, ListBundles = fake_ListBundles,
                     DeleteBundle = fake_DeleteBundle \<rparr>"

definition createBundle :: "string \<Rightarrow> common_Bundle" where
  "createBundle name = \<lparr> TrustDomainId = name, RootCas = [\<lparr> DerBytes = [1, 2, 3] \<rparr>],
                         JwtSigningKeys = [\<lparr> PkixBytes = [4, 5], Kid = ''key-id'', NotAfter = 1590514224 \<rparr>],
                         c_RefreshHint = 60 \<rparr>"

definition sample_service :: "(string, common_Bundle list) Service" where
  "sample_service = \<lparr> ds = fakedatastore, td = ''example.org'' \<rparr>"

definition sample_world :: "common_Bundle list world" where
  "sample_world = \<lparr> store = [createBundle ''example.org'', createBundle ''td1.org''], calls = [] \<rparr>"

definition corrupt_world :: "common_Bundle list world" where
  "corrupt_world = \<lparr> store = [createBundle ''td1.org'', createBundle ''invalid TD''], calls = [] \<rparr>"


section \<open>The buffered pipe\<close>

text \<open>
  The forwarding worker of \<open>BufferedPipe\<close> is at one of these points: blocked in the
  receive of \<open>for svidUpdate := range inCh\<close>; holding a received value before the nil
  check; at the \<open>select\<close>; in the default branch before \<open><-outCh\<close>; in the default branch
  before \<open>outCh <- svidUpdate\<close>; or gone, after the deferred \<open>close(outCh)\<close> and
  \<open>wg.Done()\<close>. A \<open>*SVIDUpdate\<close> is an \<open>'a option\<close>, nil being \<open>None\<close>.
\<close>

datatype 'a worker_pc =
    AtRange
  | AtNilCheck "'a option"
  | AtSelect "'a option"
  | AtDiscard "'a option"
  | AtSend "'a option"
  | Exited

text \<open>What a receive on the output channel gives: a value that was sent, or the closed channel.\<close>

datatype 'a received = Event "'a option" | ChannelClosed

text \<open>
  The state of one pipe: the capacity and buffered contents of \<open>outCh\<close> (oldest first),
  which channels are closed, whether \<open>p.in\<close> has been set to nil, where the worker is,
  the event of a \<open>Push\<close> that holds the read lock and waits in its \<open>select\<close>, whether a
  \<open>Close\<close> holds the write lock and waits in \<open>wg.Wait\<close>, whether the consumer is blocked
  in a receive, and what the consumer has received so far. \<open>inCh\<close> is unbuffered and holds nothing.
\<close>

record 'a pipe =
  bufferSize :: nat
  outCh :: "'a option list"
  outClosed :: bool
  inClosed :: bool
  doneClosed :: bool
  in_nil :: bool
  worker :: "'a worker_pc"
  pushing :: "'a option option"
  closing :: bool
  receiving :: bool
  consumed :: "'a received list"

text \<open>
  The pipe as \<open>BufferedPipe\<close> leaves it: both channels empty and open, the worker
  started and in its receive. \<open>make(chan, bufferSize)\<close> panics on a negative size: \<open>None\<close>.
\<close>

definition new_pipe :: "nat \<Rightarrow> 'a pipe" where
  "new_pipe n = \<lparr> bufferSize = n, outCh = [], outClosed = False, inClosed = False,
                   doneClosed = False, in_nil = False, worker = AtRange, pushing = None,
                   closing = False, receiving = False, consumed = [] \<rparr>"

definition BufferedPipe :: "int \<Rightarrow> 'a pipe option" where
  "BufferedPipe n = (if n < 0 then None else Some (new_pipe (nat n)))"

text \<open>
  A send on \<open>outCh\<close> goes to the waiting consumer if there is one, else into the buffer
  if it has room; otherwise it cannot proceed (\<open>None\<close>).
\<close>

definition send_outCh :: "'a option \<Rightarrow> 'a pipe \<Rightarrow> 'a pipe option" where
  "send_outCh e p =
     (if receiving p then Some (p\<lparr> receiving := False, consumed := consumed p @ [Event e] \<rparr>)
      else if length (outCh p) < bufferSize p then Some (p\<lparr> outCh := outCh p @ [e] \<rparr>)
      else None)"

text \<open>
  One step of the worker from its current point; \<open>None\<close> when it is blocked. The
  \<open>select\<close> takes its default branch exactly when the send cannot proceed; the receive
  \<open><-outCh\<close> of the default branch is a blocking receive on a channel that only the
  worker itself sends on and closes.
\<close>

definition worker_step :: "'a pipe \<Rightarrow> 'a pipe option" where
  "worker_step p =
     (case worker p of
        AtRange \<Rightarrow>
          if inClosed p
          then Some (if receiving p
                     then p\<lparr> outClosed := True, worker := Exited, receiving := False,
                             consumed := consumed p @ [ChannelClosed] \<rparr>
                     else p\<lparr> outClosed := True, worker := Exited \<rparr>)
          else None
      | AtNilCheck e \<Rightarrow>
          Some (if e = None then p\<lparr> worker := AtRange \<rparr> else p\<lparr> worker := AtSelect e \<rparr>)
      | AtSelect e \<Rightarrow>
          (case send_outCh e p of
             Some p' \<Rightarrow> Some (p'\<lparr> worker := AtRange \<rparr>)
           | None \<Rightarrow> Some (p\<lparr> worker := AtDiscard e \<rparr>))
      | AtDiscard e \<Rightarrow>
          (case outCh p of
             [] \<Rightarrow> None
           | x # rest \<Rightarrow> Some (p\<lparr> outCh := rest, worker := AtSend e \<rparr>))
      | AtSend e \<Rightarrow>
          (case send_outCh e p of
             Some p' \<Rightarrow> Some (p'\<lparr> worker := AtRange \<rparr>)
           | None \<Rightarrow> None)
      | Exited \<Rightarrow> None)"

text \<open>
  \<open>Push\<close> takes the read lock (not while \<open>Close\<close> holds the write lock; one producer),
  then waits in its \<open>select\<close>: the send on \<open>p.in\<close> completes when the worker is in its
  receive and \<open>p.in\<close> is not nil, the receive on \<open>p.done\<close> when that channel is closed.
\<close>

definition Push_call :: "'a option \<Rightarrow> 'a pipe \<Rightarrow> 'a pipe option" where
  "Push_call event p =
     (if pushing p = None \<and> \<not> closing p then Some (p\<lparr> pushing := Some event \<rparr>) else None)"

definition Push_handoff :: "'a pipe \<Rightarrow> 'a pipe option" where
  "Push_handoff p =
     (case pushing p of
        None \<Rightarrow> None
      | Some event \<Rightarrow>
          if \<not> in_nil p \<and> worker p = AtRange
          then Some (p\<lparr> pushing := None, worker := AtNilCheck event \<rparr>)
          else None)"

definition Push_done :: "'a pipe \<Rightarrow> 'a pipe option" where
  "Push_done p =
     (case pushing p of
        None \<Rightarrow> None
      | Some event \<Rightarrow> if doneClosed p then Some (p\<lparr> pushing := None \<rparr>) else None)"

text \<open>
  \<open>Close\<close> takes the write lock (not while a \<open>Push\<close> holds the read lock); if \<open>p.in\<close> is
  not nil it closes \<open>p.in\<close> and \<open>p.done\<close>, sets \<open>p.in\<close> to nil and waits for the worker.
\<close>

definition Close_call :: "'a pipe \<Rightarrow> 'a pipe option" where
  "Close_call p =
     (if pushing p = None \<and> \<not> closing p
      then Some (if \<not> in_nil p
                 then p\<lparr> inClosed := True, doneClosed := True, in_nil := True, closing := True \<rparr>
                 else p)
      else None)"

definition Close_return :: "'a pipe \<Rightarrow> 'a pipe option" where
  "Close_return p =
     (if closing p \<and> worker p = Exited then Some (p\<lparr> closing := False \<rparr>) else None)"

text \<open>The consumer's receive on the channel that \<open>GetUpdate\<close> returns.\<close>

definition receive :: "'a pipe \<Rightarrow> 'a pipe option" where
  "receive p =
     (if receiving p then None
      else case outCh p of
             x # rest \<Rightarrow> Some (p\<lparr> outCh := rest, consumed := consumed p @ [Event x] \<rparr>)
           | [] \<Rightarrow> if outClosed p then Some (p\<lparr> consumed := consumed p @ [ChannelClosed] \<rparr>)
                   else Some (p\<lparr> receiving := True \<rparr>))"

text \<open>
  A run of the pipe is a sequence of actions chosen by the scheduler; an action that
  cannot happen in the current state ends the run with \<open>None\<close>.
\<close>

datatype 'a action =
    CallPush "'a option" | Handoff | PushDone | Worker | Receive | CallClose | CloseReturn

fun exec :: "'a action \<Rightarrow> 'a pipe \<Rightarrow> 'a pipe option" where
  "exec (CallPush event) p = Push_call event p"
| "exec Handoff p = Push_handoff p"
| "exec PushDone p = Push_done p"
| "exec Worker p = worker_step p"
| "exec Receive p = receive p"
| "exec CallClose p = Close_call p"
| "exec CloseReturn p = Close_return p"

fun run :: "'a action list \<Rightarrow> 'a pipe \<Rightarrow> 'a pipe option" where
  "run [] p = Some p"
| "run (a # as) p = (case exec a p of None \<Rightarrow> None | Some p' \<Rightarrow> run as p')"

definition run_pipe :: "int \<Rightarrow> 'a action list \<Rightarrow> 'a pipe option" where
  "run_pipe n as = (case BufferedPipe n of None \<Rightarrow> None | Some p \<Rightarrow> run as p)"



fun carries_event :: "'a worker_pc \<Rightarrow> bool" where
  "carries_event (AtSelect e) = (e \<noteq> None)"
| "carries_event (AtDiscard e) = (e \<noteq> None)"
| "carries_event (AtSend e) = (e \<noteq> None)"
| "carries_event _ = True"

definition pipe_inv :: "'a pipe \<Rightarrow> bool" where
  "pipe_inv p = (length (outCh p) \<le> bufferSize p \<and> None \<notin> set (outCh p)
                 \<and> Event None \<notin> set (consumed p) \<and> carries_event (worker p)
                 \<and> (receiving p \<longrightarrow> outCh p = []))"

text \<open>
  A state in which the worker waits in \<open><-outCh\<close> on an empty buffer while a \<open>Push\<close>
  is waiting for it.
\<close>

definition stuck :: "'a pipe \<Rightarrow> bool" where
  "stuck p = ((\<exists>e. worker p = AtDiscard e) \<and> outCh p = [] \<and> pushing p \<noteq> None \<and> \<not> doneClosed p)"

text \<open>
  The pipe of capacity 1 after \<open>Push(1)\<close> was forwarded into the buffer, \<open>Push(2)\<close> found
  the buffer full, the consumer received 1 before the worker's \<open><-outCh\<close>, and \<open>Push(3)\<close>
  was called.
\<close>

definition blocked_pipe :: "nat pipe" where
  "blocked_pipe = \<lparr> bufferSize = 1, outCh = [], outClosed = False, inClosed = False,
                     doneClosed = False, in_nil = False, worker = AtDiscard (Some 2),
                     pushing = Some (Some 3), closing = False, receiving = False,
                     consumed = [Event (Some 1)] \<rparr>"

text \<open>
  Two more states of a pipe of capacity 1: the worker holds the event of \<open>Push(1)\<close>
  before its nil check; and the pipe after \<open>Close\<close> has returned.
\<close>

definition busy_pipe :: "nat pipe" where
  "busy_pipe = (new_pipe 1)\<lparr> worker := AtNilCheck (Some 1) \<rparr>"

definition closed_pipe :: "nat pipe" where
  "closed_pipe = (new_pipe 1)\<lparr> outClosed := True, inClosed := True, doneClosed := True,
                                 in_nil := True, worker := Exited \<rparr>"

subsection \<open>IsStorable\<close>

text \<open>
  \<open>common.Selector\<close> has a type and a value. \<open>strings.ToLower\<close> on ASCII text maps the
  letters A to Z to a to z and leaves every other byte. The constant \<open>svidstore.Type\<close>
  belongs to the plugin package and is a parameter.
\<close>

record Selector =
  Type :: string
  Value :: string

definition toLower_char :: "char \<Rightarrow> char" where
  "toLower_char c =
     (case map_of (zip ''ABCDEFGHIJKLMNOPQRSTUVWXYZ'' ''abcdefghijklmnopqrstuvwxyz'') c of
        Some d \<Rightarrow> d
      | None \<Rightarrow> c)"

definition ToLower :: "string \<Rightarrow> string" where
  "ToLower s = map toLower_char s"

fun IsStorable :: "string \<Rightarrow> Selector list \<Rightarrow> bool" where
  "IsStorable svidstore_Type [] = False"
| "IsStorable svidstore_Type (s # selectors) =
     (if Type s = ToLower svidstore_Type then True else IsStorable svidstore_Type selectors)"

text \<open>The comparison the specification speaks of: equality up to letter case.\<close>

definition EqualFold :: "string \<Rightarrow> string \<Rightarrow> bool" where
  "EqualFold a b = (ToLower a = ToLower b)"

section \<open>The rotator's KeysAndBundle\<close>

text \<open>
  The closure reads the current \<open>State\<close> of the rotator and the current bundle map and
  looks the configured trust domain up in the map. A key that is absent, or present with a
  nil bundle, leaves \<open>rootCAs\<close> nil. \<open>RootCAs\<close> of package \<open>bundleutil\<close> and the string form
  of the configured trust domain are parameters.
\<close>

record ('c, 'k) State =
  SVID :: "'c list"
  Key :: "'k"

definition KeysAndBundle ::
  "('b \<Rightarrow> 'c list) \<Rightarrow> string \<Rightarrow> ('c, 'k) State \<Rightarrow> (string \<rightharpoonup> 'b option)
     \<Rightarrow> 'c list \<times> 'k \<times> 'c list" where
  "KeysAndBundle RootCAs trustDomain s bundles =
     (let rootCAs = (case bundles trustDomain of
                       Some (Some bundle) \<Rightarrow> RootCAs bundle
                     | _ \<Rightarrow> [])
      in (SVID s, Key s, rootCAs))"


section \<open>Properties of the bundle service\<close>

subsection \<open>Evaluation of the sample parameters\<close>

lemma sample_parse_malformed [simp]:
  "sample_TrustDomainFromString ''malformed TD'' = Inl (PlainError ''spiffeid: unable to parse'')"
  by (simp add: sample_TrustDomainFromString_def sample_valid_char_def)

lemma sample_parse_invalid [simp]:
  "sample_TrustDomainFromString ''invalid TD'' = Inl (PlainError ''spiffeid: unable to parse'')"
  by (simp add: sample_TrustDomainFromString_def sample_valid_char_def)

lemma sample_parse_td1 [simp]: "sample_TrustDomainFromString ''td1.org'' = Inr ''td1.org''"
  by (simp add: sample_TrustDomainFromString_def sample_valid_char_def)

lemma sample_parse_notfound [simp]:
  "sample_TrustDomainFromString ''notfound.org'' = Inr ''notfound.org''"
  by (simp add: sample_TrustDomainFromString_def sample_valid_char_def)

lemma sample_parse_own [simp]:
  "sample_TrustDomainFromString ''spiffe://example.org'' = Inr ''example.org''"
  by (simp add: sample_TrustDomainFromString_def sample_valid_char_def)

lemma sample_lib_simps [simp]:
  "TrustDomainFromString sample_lib = sample_TrustDomainFromString"
  "String sample_lib t = t"
  "IDString sample_lib t = ''spiffe://'' @ t"
  "Compare sample_lib a b = (if a = b then 0 else 1)"
  "Sprintf sample_lib format args = format @ concat (map sample_arg args)"
  by (simp_all add: sample_lib_def)

lemma sample_service_simps [simp]:
  "td sample_service = ''example.org''"
  "FetchBundle (ds sample_service) = fake_FetchBundle"
  "ListBundles (ds sample_service) = fake_ListBundles"
  "DeleteBundle (ds sample_service) = fake_DeleteBundle"
  by (simp_all add: sample_service_def fakedatastore_def)

subsection \<open>applyMask\<close>

text \<open>
  C2. With \<open>k\<close> the mask in force (the default mask for an absent one): if the trust
  domain flag is off, or the stored id parses, \<open>applyMask\<close> returns the view in which each
  of the four content fields carries the bundle's value iff its flag is set and the
  sequence number is zero; if the flag is on and the stored id does not parse, it returns
  the parse error and no view.
\<close>

theorem applyMask_view:
  assumes "k = (case m of None \<Rightarrow> defaultMask | Some k' \<Rightarrow> k')"
  shows "(\<not> m_TrustDomain k \<longrightarrow> applyMask l b m = Inr (masked_view [] b k))
       \<and> (\<forall>t. m_TrustDomain k \<and> TrustDomainFromString l (TrustDomainId b) = Inr t
              \<longrightarrow> applyMask l b m = Inr (masked_view (String l t) b k))
       \<and> (\<forall>e. m_TrustDomain k \<and> TrustDomainFromString l (TrustDomainId b) = Inl e
              \<longrightarrow> applyMask l b m = Inl e)"
  using assms by (simp add: applyMask_def masked_view_def empty_Bundle_def Let_def)

theorem applyMask_view_witness:
  "defaultMask = (case None of None \<Rightarrow> defaultMask | Some k' \<Rightarrow> k')
   \<and> m_TrustDomain defaultMask
   \<and> TrustDomainFromString sample_lib (TrustDomainId (createBundle ''td1.org'')) = Inr ''td1.org''
   \<and> applyMask sample_lib (createBundle ''td1.org'') None
       = Inr \<lparr> TrustDomain = ''td1.org'', RefreshHint = 60, SequenceNumber = 0,
               X509Authorities = [\<lparr> Asn1 = [1, 2, 3] \<rparr>],
               JwtAuthorities = [\<lparr> PublicKey = [4, 5], KeyId = ''key-id'', ExpiresAt = 1590514224 \<rparr>] \<rparr>"
proof -
  have h: "defaultMask = (case None of None \<Rightarrow> defaultMask | Some k' \<Rightarrow> k')" by simp
  have f: "m_TrustDomain defaultMask" by (simp add: defaultMask_def)
  have p: "TrustDomainFromString sample_lib (TrustDomainId (createBundle ''td1.org'')) = Inr ''td1.org''"
    by (simp add: createBundle_def)
  from applyMask_view [OF h, of sample_lib "createBundle ''td1.org''"] f p
  have "applyMask sample_lib (createBundle ''td1.org'') None
          = Inr (masked_view (String sample_lib ''td1.org'') (createBundle ''td1.org'') defaultMask)"
    by blast
  then show ?thesis using h f p
    by (simp add: masked_view_def defaultMask_def createBundle_def)
qed

theorem applyMask_corrupt_id_counterexample:
  "m_TrustDomain defaultMask \<and> m_RefreshHint defaultMask
   \<and> m_X509Authorities defaultMask \<and> m_JwtAuthorities defaultMask
   \<and> applyMask sample_lib (createBundle ''invalid TD'') None
       = Inl (PlainError ''spiffeid: unable to parse'')"
  by (simp add: applyMask_def defaultMask_def createBundle_def)

subsection \<open>GetFederatedBundle\<close>

text \<open>
  C3. A trust domain string that does not parse, or that parses to a trust domain
  comparing equal to the server's own, makes \<open>GetFederatedBundle\<close> fail with
  \<open>InvalidArgument\<close>, whatever the mask and the store; the store and the sequence of
  datastore calls are left as they were, so no fetch was made.
\<close>

theorem GetFederatedBundle_own_or_malformed:
  assumes "isl (TrustDomainFromString l (gfb_TrustDomain req))
         \<or> (\<exists>t. TrustDomainFromString l (gfb_TrustDomain req) = Inr t \<and> Compare l (td s) t = 0)"
  shows "\<exists>msg. GetFederatedBundle l s req w = (Inl (StatusError InvalidArgument msg), w)"
  using assms
  by (auto simp: GetFederatedBundle_def status_Errorf_def isl_def)

theorem GetFederatedBundle_own_or_malformed_witness:
  "(\<exists>t. TrustDomainFromString sample_lib
           (gfb_TrustDomain \<lparr> gfb_TrustDomain = ''spiffe://example.org'', gfb_OutputMask = None \<rparr>) = Inr t
        \<and> Compare sample_lib (td sample_service) t = 0)
   \<and> (\<exists>msg. GetFederatedBundle sample_lib sample_service
               \<lparr> gfb_TrustDomain = ''spiffe://example.org'', gfb_OutputMask = None \<rparr> sample_world
             = (Inl (StatusError InvalidArgument msg), sample_world))"
proof -
  have h: "\<exists>t. TrustDomainFromString sample_lib
           (gfb_TrustDomain \<lparr> gfb_TrustDomain = ''spiffe://example.org'', gfb_OutputMask = None \<rparr>) = Inr t
        \<and> Compare sample_lib (td sample_service) t = 0"
    by simp
  then have "isl (TrustDomainFromString sample_lib
           (gfb_TrustDomain \<lparr> gfb_TrustDomain = ''spiffe://example.org'', gfb_OutputMask = None \<rparr>))
     \<or> (\<exists>t. TrustDomainFromString sample_lib
           (gfb_TrustDomain \<lparr> gfb_TrustDomain = ''spiffe://example.org'', gfb_OutputMask = None \<rparr>) = Inr t
        \<and> Compare sample_lib (td sample_service) t = 0)" ..
  from GetFederatedBundle_own_or_malformed [OF this, of sample_world] h
  show ?thesis by blast
qed

subsection \<open>ListFederatedBundles\<close>

lemma listLoop_corrupt:
  "\<exists>b \<in> set bs. isl (TrustDomainFromString l (TrustDomainId b)) \<Longrightarrow>
     \<exists>msg. listLoop l own m bs acc = Inl (StatusError Internal msg)"
proof (induction bs arbitrary: acc)
  case Nil
  then show ?case by simp
next
  case (Cons b bs)
  show ?case
  proof (cases "TrustDomainFromString l (TrustDomainId b)")
    case (Inl e)
    then show ?thesis by (simp add: status_Errorf_def)
  next
    case (Inr t)
    with Cons.prems have "\<exists>b \<in> set bs. isl (TrustDomainFromString l (TrustDomainId b))"
      by auto
    from Cons.IH [OF this] Inr show ?thesis
      by (auto simp: status_Errorf_def split: sum.splits)
  qed
qed

text \<open>
  C6. When the datastore answers the list request with bundles of which one has a
  trust domain id that does not parse, \<open>ListFederatedBundles\<close> returns an \<open>Internal\<close>
  error and no response; so a response implies that every bundle the datastore returned
  had an id that parses.
\<close>

theorem ListFederatedBundles_corrupt:
  assumes "ListBundles (ds s) (listReq req) (store w) = (Inr dsResp, st)"
  shows "((\<exists>b \<in> set (ds_Bundles dsResp). isl (TrustDomainFromString l (TrustDomainId b)))
            \<longrightarrow> (\<exists>msg. fst (ListFederatedBundles l s req w) = Inl (StatusError Internal msg)))
       \<and> ((\<exists>resp. fst (ListFederatedBundles l s req w) = Inr resp)
            \<longrightarrow> (\<forall>b \<in> set (ds_Bundles dsResp). \<not> isl (TrustDomainFromString l (TrustDomainId b))))"
proof -
  have a: "\<exists>msg. fst (ListFederatedBundles l s req w) = Inl (StatusError Internal msg)"
    if "\<exists>b \<in> set (ds_Bundles dsResp). isl (TrustDomainFromString l (TrustDomainId b))"
  proof -
    from listLoop_corrupt [OF that]
    obtain msg where
      "listLoop l (td s) (lfb_OutputMask req) (ds_Bundles dsResp) [] = Inl (StatusError Internal msg)"
      by blast
    with assms show ?thesis
      by (simp add: ListFederatedBundles_def ds_ListBundles_def Let_def)
  qed
  then show ?thesis by fastforce
qed

theorem ListFederatedBundles_corrupt_witness:
  "ListBundles (ds sample_service)
      (listReq \<lparr> lfb_OutputMask = None, lfb_PageSize = 0, lfb_PageToken = [] \<rparr>) (store corrupt_world)
     = (Inr \<lparr> ds_Bundles = [createBundle ''td1.org'', createBundle ''invalid TD''],
              resp_Pagination = None \<rparr>, store corrupt_world)
   \<and> (\<exists>b \<in> set [createBundle ''td1.org'', createBundle ''invalid TD''].
         isl (TrustDomainFromString sample_lib (TrustDomainId b)))
   \<and> (\<exists>msg. fst (ListFederatedBundles sample_lib sample_service
                    \<lparr> lfb_OutputMask = None, lfb_PageSize = 0, lfb_PageToken = [] \<rparr> corrupt_world)
             = Inl (StatusError Internal msg))"
proof -
  have h: "ListBundles (ds sample_service)
      (listReq \<lparr> lfb_OutputMask = None, lfb_PageSize = 0, lfb_PageToken = [] \<rparr>) (store corrupt_world)
     = (Inr \<lparr> ds_Bundles = [createBundle ''td1.org'', createBundle ''invalid TD''],
              resp_Pagination = None \<rparr>, store corrupt_world)"
    by (simp add: fake_ListBundles_def corrupt_world_def)
  have c: "\<exists>b \<in> set [createBundle ''td1.org'', createBundle ''invalid TD''].
         isl (TrustDomainFromString sample_lib (TrustDomainId b))"
    by (simp add: createBundle_def)
  have c': "\<exists>b \<in> set (ds_Bundles \<lparr> ds_Bundles = [createBundle ''td1.org'', createBundle ''invalid TD''],
                                         resp_Pagination = None \<rparr>).
         isl (TrustDomainFromString sample_lib (TrustDomainId b))"
    using c by simp
  from ListFederatedBundles_corrupt [OF h, of sample_lib] c'
  have r: "\<exists>msg. fst (ListFederatedBundles sample_lib sample_service
                    \<lparr> lfb_OutputMask = None, lfb_PageSize = 0, lfb_PageToken = [] \<rparr> corrupt_world)
             = Inl (StatusError Internal msg)"
    by blast
  from h c r show ?thesis by blast
qed

subsection \<open>BatchDeleteFederatedBundle\<close>

lemma batchDeleteLoop_results:
  "batchDeleteLoop l s tds results w = (results', w') \<Longrightarrow>
     map r_TrustDomain results' = map r_TrustDomain results @ tds"
proof (induction tds arbitrary: results w)
  case Nil
  then show ?case by simp
next
  case (Cons x xs)
  then show ?case by (auto split: prod.splits)
qed

text \<open>
  C4. \<open>BatchDeleteFederatedBundle\<close> fails exactly on the empty sequence: there it
  returns \<open>InvalidArgument\<close> and leaves the store and the sequence of datastore calls as
  they were; on a non-empty sequence it returns a response with one result per input,
  carrying the inputs in their order, whatever the outcome of each item.
\<close>

theorem BatchDelete_fails_iff_empty:
  "(TrustDomains req = [] \<longrightarrow>
      BatchDeleteFederatedBundle l s req w
        = (Inl (StatusError InvalidArgument ''request missing trust domains''), w))
   \<and> (TrustDomains req \<noteq> [] \<longrightarrow>
        (\<exists>resp w'. BatchDeleteFederatedBundle l s req w = (Inr resp, w')
                  \<and> length (Results resp) = length (TrustDomains req)
                  \<and> map r_TrustDomain (Results resp) = TrustDomains req))"
proof (intro conjI impI)
  assume "TrustDomains req = []"
  then show "BatchDeleteFederatedBundle l s req w
        = (Inl (StatusError InvalidArgument ''request missing trust domains''), w)"
    by (simp add: BatchDeleteFederatedBundle_def status_Error_def)
next
  assume ne: "TrustDomains req \<noteq> []"
  obtain results w' where loop: "batchDeleteLoop l s (TrustDomains req) [] w = (results, w')"
    by (cases "batchDeleteLoop l s (TrustDomains req) [] w")
  from batchDeleteLoop_results [OF loop]
  have m: "map r_TrustDomain results = TrustDomains req" by simp
  then have "length results = length (TrustDomains req)"
    by (metis length_map)
  with ne loop m
  show "\<exists>resp w'. BatchDeleteFederatedBundle l s req w = (Inr resp, w')
                  \<and> length (Results resp) = length (TrustDomains req)
                  \<and> map r_TrustDomain (Results resp) = TrustDomains req"
    by (simp add: BatchDeleteFederatedBundle_def)
qed

theorem BatchDelete_fails_iff_empty_witness:
  "TrustDomains \<lparr> TrustDomains = [''malformed TD'', ''td1.org''] \<rparr> \<noteq> []
   \<and> (\<exists>resp w'. BatchDeleteFederatedBundle sample_lib sample_service
                   \<lparr> TrustDomains = [''malformed TD'', ''td1.org''] \<rparr> sample_world = (Inr resp, w')
                \<and> length (Results resp) = length [''malformed TD'', ''td1.org'']
                \<and> map r_TrustDomain (Results resp) = [''malformed TD'', ''td1.org''])
   \<and> TrustDomains \<lparr> TrustDomains = [] \<rparr> = []
   \<and> BatchDeleteFederatedBundle sample_lib sample_service \<lparr> TrustDomains = [] \<rparr> sample_world
       = (Inl (StatusError InvalidArgument ''request missing trust domains''), sample_world)"
proof -
  have ne: "TrustDomains \<lparr> TrustDomains = [''malformed TD'', ''td1.org''] \<rparr> \<noteq> []" by simp
  have em: "TrustDomains \<lparr> TrustDomains = [] \<rparr> = []" by simp
  have sel: "TrustDomains \<lparr> TrustDomains = [''malformed TD'', ''td1.org''] \<rparr>
               = [''malformed TD'', ''td1.org'']" by simp
  from BatchDelete_fails_iff_empty
          [of "\<lparr> TrustDomains = [''malformed TD'', ''td1.org''] \<rparr>" sample_lib sample_service sample_world]
       ne
  have a: "\<exists>resp w'. BatchDeleteFederatedBundle sample_lib sample_service
                   \<lparr> TrustDomains = [''malformed TD'', ''td1.org''] \<rparr> sample_world = (Inr resp, w')
                \<and> length (Results resp) = length [''malformed TD'', ''td1.org'']
                \<and> map r_TrustDomain (Results resp) = [''malformed TD'', ''td1.org'']"
    unfolding sel by blast
  from BatchDelete_fails_iff_empty [of "\<lparr> TrustDomains = [] \<rparr>" sample_lib sample_service sample_world] em
  have b: "BatchDeleteFederatedBundle sample_lib sample_service \<lparr> TrustDomains = [] \<rparr> sample_world
       = (Inl (StatusError InvalidArgument ''request missing trust domains''), sample_world)"
    by blast
  from ne a em b show ?thesis by blast
qed

text \<open>
  C1. The batch \<open>[''malformed TD'', ''td1.org'', ''notfound.org'']\<close> against a store
  that holds \<open>td1.org\<close> and not \<open>notfound.org\<close>: the call succeeds with three results in
  input order; the first has code \<open>InvalidArgument\<close>, the second a nil status, and the
  third code \<open>Internal\<close>, although the datastore answered the delete with \<open>NotFound\<close>.
\<close>

theorem BatchDelete_absent_is_Internal:
  "(case BatchDeleteFederatedBundle sample_lib sample_service
           \<lparr> TrustDomains = [''malformed TD'', ''td1.org'', ''notfound.org''] \<rparr> sample_world of
      (Inl err, w') \<Rightarrow> False
    | (Inr resp, w') \<Rightarrow>
        map (\<lambda>r. (r_TrustDomain r, map_option Code (r_Status r))) (Results resp)
          = [(''malformed TD'', Some InvalidArgument), (''td1.org'', None),
             (''notfound.org'', Some Internal)]
        \<and> store w' = [createBundle ''example.org''])
   \<and> fst (fake_DeleteBundle \<lparr> delete_TrustDomainId = ''notfound.org'', Mode = RESTRICT \<rparr>
             [createBundle ''example.org''])
       = Inl (StatusError NotFound ''no such bundle'')"
  by (simp add: BatchDeleteFederatedBundle_def deleteFederatedBundle_def ds_DeleteBundle_def
        fake_DeleteBundle_def sample_world_def createBundle_def StatusFromError_def
        CreateStatus_def status_Errorf_def status_Error_def)

subsection \<open>The keys handed to the datastore\<close>

text \<open>
  C10. Starting with no datastore call made: \<open>GetBundle\<close> fetches with the SPIFFE ID
  form (\<open>IDString\<close>) of the server's trust domain, \<open>GetFederatedBundle\<close> with the SPIFFE ID
  form of the parsed trust domain, while the per-item delete of
  \<open>BatchDeleteFederatedBundle\<close> passes the name form (\<open>String\<close>) of the same parsed trust
  domain, in restrict mode; where the two forms of a trust domain differ, so do the keys.
\<close>

theorem fetch_and_delete_keys:
  assumes "TrustDomainFromString l str = Inr t" and "Compare l (td s) t \<noteq> 0" and "calls w = []"
  shows "calls (snd (GetBundle l s gbreq w))
           = [CallFetchBundle \<lparr> fetch_TrustDomainId = IDString l (td s) \<rparr>]
       \<and> calls (snd (GetFederatedBundle l s \<lparr> gfb_TrustDomain = str, gfb_OutputMask = m \<rparr> w))
           = [CallFetchBundle \<lparr> fetch_TrustDomainId = IDString l t \<rparr>]
       \<and> calls (snd (deleteFederatedBundle l s str w))
           = [CallDeleteBundle \<lparr> delete_TrustDomainId = String l t, Mode = RESTRICT \<rparr>]
       \<and> calls (snd (BatchDeleteFederatedBundle l s \<lparr> TrustDomains = [str] \<rparr> w))
           = [CallDeleteBundle \<lparr> delete_TrustDomainId = String l t, Mode = RESTRICT \<rparr>]
       \<and> (IDString l t \<noteq> String l t \<longrightarrow>
            fetch_keys (calls (snd (GetFederatedBundle l s \<lparr> gfb_TrustDomain = str, gfb_OutputMask = m \<rparr> w)))
              \<noteq> delete_keys (calls (snd (BatchDeleteFederatedBundle l s \<lparr> TrustDomains = [str] \<rparr> w))))"
proof -
  have g: "calls (snd (GetBundle l s gbreq w))
           = [CallFetchBundle \<lparr> fetch_TrustDomainId = IDString l (td s) \<rparr>]"
    using assms(3)
    by (simp add: GetBundle_def ds_FetchBundle_def split: prod.splits sum.splits option.splits)
  have f: "calls (snd (GetFederatedBundle l s \<lparr> gfb_TrustDomain = str, gfb_OutputMask = m \<rparr> w))
           = [CallFetchBundle \<lparr> fetch_TrustDomainId = IDString l t \<rparr>]"
    using assms
    by (simp add: GetFederatedBundle_def ds_FetchBundle_def split: prod.splits sum.splits option.splits)
  have d: "calls (snd (deleteFederatedBundle l s str w))
           = [CallDeleteBundle \<lparr> delete_TrustDomainId = String l t, Mode = RESTRICT \<rparr>]"
    using assms
    by (simp add: deleteFederatedBundle_def ds_DeleteBundle_def split: prod.splits sum.splits)
  have b: "calls (snd (BatchDeleteFederatedBundle l s \<lparr> TrustDomains = [str] \<rparr> w))
           = calls (snd (deleteFederatedBundle l s str w))"
    by (simp add: BatchDeleteFederatedBundle_def split: prod.splits)
  from g f d b show ?thesis by simp
qed

theorem fetch_and_delete_keys_witness:
  "TrustDomainFromString sample_lib ''td1.org'' = Inr ''td1.org''
   \<and> Compare sample_lib (td sample_service) ''td1.org'' \<noteq> 0
   \<and> calls sample_world = []
   \<and> IDString sample_lib ''td1.org'' \<noteq> String sample_lib ''td1.org''
   \<and> calls (snd (GetFederatedBundle sample_lib sample_service
                    \<lparr> gfb_TrustDomain = ''td1.org'', gfb_OutputMask = None \<rparr> sample_world))
       = [CallFetchBundle \<lparr> fetch_TrustDomainId = ''spiffe://td1.org'' \<rparr>]
   \<and> calls (snd (BatchDeleteFederatedBundle sample_lib sample_service
                    \<lparr> TrustDomains = [''td1.org''] \<rparr> sample_world))
       = [CallDeleteBundle \<lparr> delete_TrustDomainId = ''td1.org'', Mode = RESTRICT \<rparr>]"
proof -
  have p: "TrustDomainFromString sample_lib ''td1.org'' = Inr ''td1.org''" by simp
  have c: "Compare sample_lib (td sample_service) ''td1.org'' \<noteq> 0" by simp
  have e: "calls sample_world = []" by (simp add: sample_world_def)
  have n: "IDString sample_lib ''td1.org'' \<noteq> String sample_lib ''td1.org''" by simp
  from fetch_and_delete_keys [where m = None, OF p c e] p c e n
  show ?thesis by simp
qed

section \<open>Properties of the buffered pipe\<close>

lemma send_outCh_inv:
  "pipe_inv p \<Longrightarrow> e \<noteq> None \<Longrightarrow> send_outCh e p = Some p' \<Longrightarrow> pipe_inv (p'\<lparr> worker := AtRange \<rparr>)"
  by (auto simp: pipe_inv_def send_outCh_def split: if_splits)

lemma worker_step_inv: "pipe_inv p \<Longrightarrow> worker_step p = Some p' \<Longrightarrow> pipe_inv p'"
proof (cases "worker p")
  case AtRange
  assume "pipe_inv p" "worker_step p = Some p'"
  with AtRange show ?thesis
    by (auto simp: pipe_inv_def worker_step_def split: if_splits)
next
  case (AtNilCheck e)
  assume "pipe_inv p" "worker_step p = Some p'"
  with AtNilCheck show ?thesis
    by (auto simp: pipe_inv_def worker_step_def split: if_splits)
next
  case (AtSelect e)
  assume i: "pipe_inv p" and st: "worker_step p = Some p'"
  from i AtSelect have ne: "e \<noteq> None" by (simp add: pipe_inv_def)
  show ?thesis
  proof (cases "send_outCh e p")
    case None
    with AtSelect st have "p' = p\<lparr> worker := AtDiscard e \<rparr>"
      by (simp add: worker_step_def)
    with i ne show ?thesis by (simp add: pipe_inv_def)
  next
    case (Some q)
    with AtSelect st have "p' = q\<lparr> worker := AtRange \<rparr>"
      by (simp add: worker_step_def)
    with send_outCh_inv [OF i ne Some] show ?thesis by simp
  qed
next
  case (AtDiscard e)
  assume "pipe_inv p" "worker_step p = Some p'"
  with AtDiscard show ?thesis
    by (auto simp: pipe_inv_def worker_step_def split: list.splits)
next
  case (AtSend e)
  assume i: "pipe_inv p" and st: "worker_step p = Some p'"
  from i AtSend have ne: "e \<noteq> None" by (simp add: pipe_inv_def)
  from AtSend st obtain q where q: "send_outCh e p = Some q" and "p' = q\<lparr> worker := AtRange \<rparr>"
    by (auto simp: worker_step_def split: option.splits)
  with send_outCh_inv [OF i ne q] show ?thesis by simp
next
  case Exited
  assume "worker_step p = Some p'"
  with Exited show ?thesis by (simp add: worker_step_def)
qed

lemma exec_inv: "pipe_inv p \<Longrightarrow> exec a p = Some p' \<Longrightarrow> pipe_inv p'"
proof (cases a)
  case Worker
  assume "pipe_inv p" "exec a p = Some p'"
  with Worker show ?thesis by (simp add: worker_step_inv)
next
  case Receive
  assume "pipe_inv p" "exec a p = Some p'"
  with Receive show ?thesis
    by (auto simp: pipe_inv_def receive_def split: if_splits list.splits)
next
  case Handoff
  assume "pipe_inv p" "exec a p = Some p'"
  with Handoff show ?thesis
    by (auto simp: pipe_inv_def Push_handoff_def split: if_splits option.splits)
qed (auto simp: pipe_inv_def Push_call_def Push_done_def Close_call_def Close_return_def
       split: if_splits option.splits)

lemma run_inv: "pipe_inv p \<Longrightarrow> run as p = Some p' \<Longrightarrow> pipe_inv p'"
proof (induction as arbitrary: p)
  case Nil
  then show ?case by simp
next
  case (Cons a as)
  then show ?case by (auto split: option.splits dest: exec_inv)
qed

lemma BufferedPipe_inv: "BufferedPipe n = Some p \<Longrightarrow> pipe_inv p"
  by (auto simp: BufferedPipe_def new_pipe_def pipe_inv_def split: if_splits)

lemma run_pipe_inv: "run_pipe n as = Some p \<Longrightarrow> pipe_inv p"
  by (auto simp: run_pipe_def split: option.splits dest: BufferedPipe_inv run_inv)

lemma bufferSize_exec: "exec a p = Some p' \<Longrightarrow> bufferSize p' = bufferSize p"
  by (cases a)
     (auto simp: Push_call_def Push_handoff_def Push_done_def Close_call_def Close_return_def
        receive_def worker_step_def send_outCh_def
        split: if_splits option.splits list.splits worker_pc.splits)

lemma stuck_exec: "stuck p \<Longrightarrow> exec a p = Some p' \<Longrightarrow>
   stuck p' \<and> pushing p' = pushing p \<and> worker p' = worker p"
  by (cases a)
     (auto simp: stuck_def Push_call_def Push_handoff_def Push_done_def Close_call_def Close_return_def
        receive_def worker_step_def 
        split: if_splits option.splits list.splits)

lemma stuck_run: "stuck p \<Longrightarrow> run as p = Some p' \<Longrightarrow>
   stuck p' \<and> pushing p' = pushing p \<and> worker p' = worker p"
proof (induction as arbitrary: p)
  case Nil
  then show ?case by simp
next
  case (Cons a as)
  from Cons.prems obtain q where q: "exec a p = Some q" and r: "run as q = Some p'"
    by (auto split: option.splits)
  from stuck_exec [OF Cons.prems(1) q] Cons.IH [OF _ r] show ?case by simp
qed



lemma bufferSize_run: "run as p = Some p' \<Longrightarrow> bufferSize p' = bufferSize p"
proof (induction as arbitrary: p)
  case Nil
  then show ?case by simp
next
  case (Cons a as)
  then show ?case by (auto split: option.splits dest: bufferSize_exec)
qed

text \<open>
  The buffer of the output channel never holds more than the capacity the pipe was
  made with.
\<close>

lemma outCh_bounded:
  "run_pipe n as = Some p \<Longrightarrow> length (outCh p) \<le> bufferSize p \<and> int (bufferSize p) = n"
proof -
  assume r: "run_pipe n as = Some p"
  then have "pipe_inv p" by (rule run_pipe_inv)
  then have "length (outCh p) \<le> bufferSize p" by (simp add: pipe_inv_def)
  moreover from r have "int (bufferSize p) = n"
    by (auto simp: run_pipe_def BufferedPipe_def new_pipe_def
          split: if_splits option.splits dest: bufferSize_run)
  ultimately show ?thesis by simp
qed

text \<open>
  A worker that finds the buffer full and non-empty, and is not overtaken by the
  consumer, removes the oldest item and appends the new one.
\<close>

lemma full_buffer_eviction:
  "worker p = AtSelect e \<Longrightarrow> \<not> receiving p \<Longrightarrow> outCh p = x # rest \<Longrightarrow>
   length (outCh p) = bufferSize p \<Longrightarrow>
     run [Worker, Worker, Worker] p = Some (p\<lparr> outCh := rest @ [e], worker := AtRange \<rparr>)"
  by (simp add: worker_step_def send_outCh_def)

text \<open>
  With capacity 0 and no consumer waiting, the first event already leaves the worker in
  \<open><-outCh\<close> on an empty channel, where it cannot take a step.
\<close>

lemma capacity_zero_blocks:
  "map_option worker (run_pipe 0 [CallPush (Some (1::nat)), Handoff, Worker, Worker])
     = Some (AtDiscard (Some 1))
   \<and> map_option outCh (run_pipe 0 [CallPush (Some (1::nat)), Handoff, Worker, Worker]) = Some []
   \<and> run_pipe 0 [CallPush (Some (1::nat)), Handoff, Worker, Worker, Worker] = None"
  by (simp add: run_pipe_def BufferedPipe_def new_pipe_def Push_call_def Push_handoff_def
        worker_step_def send_outCh_def)

text \<open>
  C5. Capacity 1: after \<open>Push(1)\<close> has been forwarded and \<open>Push(2)\<close> has found the buffer
  full, the consumer receives 1 before the worker's \<open><-outCh\<close>. From then on, whatever
  the producer, the consumer and the worker do, the worker stays in \<open><-outCh\<close> on an empty
  buffer and the next \<open>Push\<close> never returns.
\<close>

theorem pipe_worker_blocks_forever:
  "run_pipe 1 [CallPush (Some 1), Handoff, Worker, Worker, CallPush (Some 2), Handoff, Worker,
               Worker, Receive, CallPush (Some 3)] = Some blocked_pipe
   \<and> (\<forall>as p'. run as blocked_pipe = Some p' \<longrightarrow>
         worker p' = AtDiscard (Some 2) \<and> outCh p' = [] \<and> pushing p' = Some (Some 3)
         \<and> worker_step p' = None \<and> Push_handoff p' = None \<and> Push_done p' = None)"
proof -
  have r: "run_pipe 1 [CallPush (Some 1), Handoff, Worker, Worker, CallPush (Some 2), Handoff, Worker,
               Worker, Receive, CallPush (Some 3)] = Some blocked_pipe"
    by (simp add: run_pipe_def BufferedPipe_def new_pipe_def Push_call_def Push_handoff_def
          worker_step_def send_outCh_def receive_def blocked_pipe_def)
  have s: "stuck blocked_pipe" by (simp add: stuck_def blocked_pipe_def)
  have "worker p' = AtDiscard (Some 2) \<and> outCh p' = [] \<and> pushing p' = Some (Some 3)
         \<and> worker_step p' = None \<and> Push_handoff p' = None \<and> Push_done p' = None"
    if "run as blocked_pipe = Some p'" for as p'
  proof -
    from stuck_run [OF s that]
    have "stuck p'" and "pushing p' = Some (Some 3)" and "worker p' = AtDiscard (Some 2)"
      by (simp_all add: blocked_pipe_def)
    then show ?thesis
      by (simp add: stuck_def worker_step_def Push_handoff_def Push_done_def)
  qed
  with r show ?thesis by blast
qed

theorem pipe_worker_blocks_forever_witness:
  "run [Receive] blocked_pipe = Some (blocked_pipe\<lparr> receiving := True \<rparr>)
   \<and> worker (blocked_pipe\<lparr> receiving := True \<rparr>) = AtDiscard (Some 2)
   \<and> pushing (blocked_pipe\<lparr> receiving := True \<rparr>) = Some (Some 3)
   \<and> worker_step (blocked_pipe\<lparr> receiving := True \<rparr>) = None
   \<and> Push_handoff (blocked_pipe\<lparr> receiving := True \<rparr>) = None"
proof -
  have h: "run [Receive] blocked_pipe = Some (blocked_pipe\<lparr> receiving := True \<rparr>)"
    by (simp add: receive_def blocked_pipe_def)
  from pipe_worker_blocks_forever h show ?thesis by blast
qed

lemma closed_flags_exec:
  "in_nil p = doneClosed p \<and> inClosed p = doneClosed p \<Longrightarrow> exec a p = Some p' \<Longrightarrow>
     in_nil p' = doneClosed p' \<and> inClosed p' = doneClosed p'"
  by (cases a)
     (auto simp: Push_call_def Push_handoff_def Push_done_def Close_call_def Close_return_def
        receive_def worker_step_def send_outCh_def
        split: if_splits option.splits list.splits worker_pc.splits)

lemma closed_flags_run:
  "in_nil p = doneClosed p \<and> inClosed p = doneClosed p \<Longrightarrow> run as p = Some p' \<Longrightarrow>
     in_nil p' = doneClosed p' \<and> inClosed p' = doneClosed p'"
proof (induction as arbitrary: p)
  case Nil
  then show ?case by simp
next
  case (Cons a as)
  from Cons.prems(2) obtain q where q: "exec a p = Some q" and r: "run as q = Some p'"
    by (auto split: option.splits)
  from closed_flags_exec [OF Cons.prems(1) q] have "in_nil q = doneClosed q \<and> inClosed q = doneClosed q" .
  from Cons.IH [OF this r] show ?case .
qed

lemma closed_flags_run_pipe:
  "run_pipe n as = Some p \<Longrightarrow> in_nil p = doneClosed p \<and> inClosed p = doneClosed p"
proof -
  assume "run_pipe n as = Some p"
  then obtain p0 where b: "BufferedPipe n = Some p0" and r: "run as p0 = Some p"
    by (auto simp: run_pipe_def split: option.splits)
  from b have "in_nil p0 = doneClosed p0 \<and> inClosed p0 = doneClosed p0"
    by (auto simp: BufferedPipe_def new_pipe_def split: if_splits)
  from closed_flags_run [OF this r] show ?thesis .
qed

lemma pushing_kept_exec:
  "pushing p = Some x \<Longrightarrow> a \<noteq> Handoff \<Longrightarrow> a \<noteq> PushDone \<Longrightarrow> exec a p = Some p' \<Longrightarrow>
     pushing p' = Some x"
  by (cases a)
     (auto simp: Push_call_def Close_call_def Close_return_def
        receive_def worker_step_def send_outCh_def
        split: if_splits option.splits list.splits worker_pc.splits)

lemma pushing_kept_run:
  "pushing p = Some x \<Longrightarrow> Handoff \<notin> set as \<Longrightarrow> PushDone \<notin> set as \<Longrightarrow> run as p = Some p' \<Longrightarrow>
     pushing p' = Some x"
proof (induction as arbitrary: p)
  case Nil
  then show ?case by simp
next
  case (Cons a as)
  from Cons.prems(4) obtain q where q: "exec a p = Some q" and r: "run as q = Some p'"
    by (auto split: option.splits)
  from Cons.prems have "a \<noteq> Handoff" "a \<noteq> PushDone" by auto
  from pushing_kept_exec [OF Cons.prems(1) this q] have "pushing q = Some x" .
  from Cons.IH [OF this _ _ r] Cons.prems show ?case by simp
qed

text \<open>
  C7. \<open>Push\<close> does not look at the event. Called with nil on a pipe on which \<open>Push\<close>
  can take the read lock, it enters its \<open>select\<close> with the nil event and does not return
  before the hand-off or the receive on \<open>p.done\<close>, whatever else happens in between. The
  hand-off takes place only while \<open>p.in\<close> is not nil and the worker is in its receive; it
  gives the nil to the worker, which drops it at its nil check. The receive on \<open>p.done\<close>
  takes place only on a pipe that has been closed, where \<open>p.in\<close> is nil. In every run no
  nil is in the output buffer and the consumer has received none.
\<close>

theorem Push_nil_dropped_by_worker:
  "(run_pipe n as = Some p \<longrightarrow>
      None \<notin> set (outCh p) \<and> Event None \<notin> set (consumed p)
      \<and> in_nil p = doneClosed p)
   \<and> (pushing q = None \<and> \<not> closing q \<longrightarrow>
        exec (CallPush None) q = Some (q\<lparr> pushing := Some None \<rparr>)
        \<and> (\<forall>bs q'. Handoff \<notin> set bs \<and> PushDone \<notin> set bs \<and> run (CallPush None # bs) q = Some q'
              \<longrightarrow> pushing q' = Some None)
        \<and> (\<not> in_nil q \<and> worker q = AtRange \<longrightarrow>
              run [CallPush None, Handoff] q = Some (q\<lparr> pushing := None, worker := AtNilCheck None \<rparr>)
              \<and> run [CallPush None, Handoff, Worker] q = Some (q\<lparr> pushing := None, worker := AtRange \<rparr>))
        \<and> (in_nil q \<or> worker q \<noteq> AtRange \<longrightarrow> run [CallPush None, Handoff] q = None)
        \<and> (doneClosed q \<longrightarrow> run [CallPush None, PushDone] q = Some (q\<lparr> pushing := None \<rparr>))
        \<and> (\<not> doneClosed q \<longrightarrow> run [CallPush None, PushDone] q = None))"
proof (intro conjI impI allI)
  assume r: "run_pipe n as = Some p"
  then have "pipe_inv p" by (rule run_pipe_inv)
  then show "None \<notin> set (outCh p)" and "Event None \<notin> set (consumed p)"
    by (simp_all add: pipe_inv_def)
  from closed_flags_run_pipe [OF r] show "in_nil p = doneClosed p" by simp
next
  assume "pushing q = None \<and> \<not> closing q"
  then show "exec (CallPush None) q = Some (q\<lparr> pushing := Some None \<rparr>)"
    by (simp add: Push_call_def)
next
  fix bs q'
  assume c: "pushing q = None \<and> \<not> closing q"
    and b: "Handoff \<notin> set bs \<and> PushDone \<notin> set bs \<and> run (CallPush None # bs) q = Some q'"
  from c b have "run bs (q\<lparr> pushing := Some None \<rparr>) = Some q'"
    by (simp add: Push_call_def)
  moreover have "pushing (q\<lparr> pushing := Some None \<rparr>) = Some None" by simp
  ultimately show "pushing q' = Some None"
    using b pushing_kept_run by blast
next
  assume "pushing q = None \<and> \<not> closing q" and "\<not> in_nil q \<and> worker q = AtRange"
  then show "run [CallPush None, Handoff] q = Some (q\<lparr> pushing := None, worker := AtNilCheck None \<rparr>)"
    and "run [CallPush None, Handoff, Worker] q = Some (q\<lparr> pushing := None, worker := AtRange \<rparr>)"
    by (simp_all add: Push_call_def Push_handoff_def worker_step_def)
next
  assume "pushing q = None \<and> \<not> closing q" and "in_nil q \<or> worker q \<noteq> AtRange"
  then show "run [CallPush None, Handoff] q = None"
    by (auto simp: Push_call_def Push_handoff_def)
next
  assume "pushing q = None \<and> \<not> closing q" and "doneClosed q"
  then show "run [CallPush None, PushDone] q = Some (q\<lparr> pushing := None \<rparr>)"
    by (simp add: Push_call_def Push_done_def)
next
  assume "pushing q = None \<and> \<not> closing q" and "\<not> doneClosed q"
  then show "run [CallPush None, PushDone] q = None"
    by (simp add: Push_call_def Push_done_def)
qed


theorem Push_nil_dropped_by_worker_witness:
  "run_pipe 1 [CallPush None, Handoff, Worker, CallPush (Some (1::nat)), Handoff, Worker, Worker, Receive]
     = Some ((new_pipe 1)\<lparr> consumed := [Event (Some 1)] \<rparr>)
   \<and> Event None \<notin> set (consumed ((new_pipe 1 :: nat pipe)\<lparr> consumed := [Event (Some 1)] \<rparr>))
   \<and> pushing (new_pipe 1 :: nat pipe) = None \<and> \<not> closing (new_pipe 1 :: nat pipe)
   \<and> \<not> in_nil (new_pipe 1 :: nat pipe) \<and> worker (new_pipe 1 :: nat pipe) = AtRange
   \<and> exec (CallPush None) (new_pipe 1 :: nat pipe) = Some ((new_pipe 1)\<lparr> pushing := Some None \<rparr>)
   \<and> run [CallPush None, Handoff, Worker] (new_pipe 1 :: nat pipe)
       = Some ((new_pipe 1)\<lparr> pushing := None, worker := AtRange \<rparr>)
   \<and> Handoff \<notin> set [Receive :: nat action] \<and> PushDone \<notin> set [Receive :: nat action]
   \<and> run [CallPush None, Receive] (new_pipe 1 :: nat pipe)
       = Some ((new_pipe 1)\<lparr> pushing := Some None, receiving := True \<rparr>)
   \<and> pushing ((new_pipe 1 :: nat pipe)\<lparr> pushing := Some None, receiving := True \<rparr>) = Some None
   \<and> \<not> doneClosed (new_pipe 1 :: nat pipe)
   \<and> run [CallPush None, PushDone] (new_pipe 1 :: nat pipe) = None
   \<and> run_pipe 1 [CallPush (Some 1), Handoff] = Some busy_pipe
   \<and> pushing busy_pipe = None \<and> \<not> closing busy_pipe \<and> worker busy_pipe \<noteq> AtRange
   \<and> run [CallPush None, Handoff] busy_pipe = None
   \<and> run_pipe 1 [CallClose, Worker, CloseReturn] = Some closed_pipe
   \<and> pushing closed_pipe = None \<and> \<not> closing closed_pipe \<and> doneClosed closed_pipe
   \<and> in_nil closed_pipe
   \<and> run [CallPush None, Handoff] closed_pipe = None
   \<and> run [CallPush None, PushDone] closed_pipe = Some (closed_pipe\<lparr> pushing := None \<rparr>)"
proof -
  have r: "run_pipe 1 [CallPush None, Handoff, Worker, CallPush (Some (1::nat)), Handoff, Worker, Worker, Receive]
     = Some ((new_pipe 1)\<lparr> consumed := [Event (Some 1)] \<rparr>)"
    by (simp add: run_pipe_def BufferedPipe_def new_pipe_def Push_call_def Push_handoff_def
          worker_step_def send_outCh_def receive_def)
  have a: "pushing (new_pipe 1 :: nat pipe) = None \<and> \<not> closing (new_pipe 1 :: nat pipe)"
    by (simp add: new_pipe_def)
  have b: "\<not> in_nil (new_pipe 1 :: nat pipe) \<and> worker (new_pipe 1 :: nat pipe) = AtRange"
    by (simp add: new_pipe_def)
  have d: "\<not> doneClosed (new_pipe 1 :: nat pipe)"
    by (simp add: new_pipe_def)
  have s: "Handoff \<notin> set [Receive :: nat action] \<and> PushDone \<notin> set [Receive :: nat action]
           \<and> run (CallPush None # [Receive]) (new_pipe 1 :: nat pipe)
               = Some ((new_pipe 1)\<lparr> pushing := Some None, receiving := True \<rparr>)"
    by (simp add: new_pipe_def Push_call_def receive_def)
  note T = Push_nil_dropped_by_worker
             [of 1 "[CallPush None, Handoff, Worker, CallPush (Some (1::nat)), Handoff, Worker, Worker, Receive]"
                 "(new_pipe 1)\<lparr> consumed := [Event (Some 1)] \<rparr>" "new_pipe 1 :: nat pipe"]
  from T r have c1: "Event None \<notin> set (consumed ((new_pipe 1 :: nat pipe)\<lparr> consumed := [Event (Some 1)] \<rparr>))"
    by blast
  from T a have c2: "exec (CallPush None) (new_pipe 1 :: nat pipe) = Some ((new_pipe 1)\<lparr> pushing := Some None \<rparr>)"
    by blast
  from T a b have c3: "run [CallPush None, Handoff, Worker] (new_pipe 1 :: nat pipe)
       = Some ((new_pipe 1)\<lparr> pushing := None, worker := AtRange \<rparr>)"
    by blast
  from T a s have c4: "pushing ((new_pipe 1 :: nat pipe)\<lparr> pushing := Some None, receiving := True \<rparr>) = Some None"
    by blast
  from T a d have c5: "run [CallPush None, PushDone] (new_pipe 1 :: nat pipe) = None"
    by blast
  have rb: "run_pipe 1 [CallPush (Some 1), Handoff] = Some busy_pipe"
    by (simp add: run_pipe_def BufferedPipe_def new_pipe_def Push_call_def Push_handoff_def busy_pipe_def)
  have hb: "pushing busy_pipe = None \<and> \<not> closing busy_pipe" and wb: "worker busy_pipe \<noteq> AtRange"
    by (simp_all add: busy_pipe_def new_pipe_def)
  from Push_nil_dropped_by_worker [of 1 "[]" "new_pipe 1 :: nat pipe" busy_pipe] hb wb
  have c6: "run [CallPush None, Handoff] busy_pipe = None"
    by blast
  have rc: "run_pipe 1 [CallClose, Worker, CloseReturn] = Some closed_pipe"
    by (simp add: run_pipe_def BufferedPipe_def new_pipe_def Close_call_def Close_return_def
          worker_step_def closed_pipe_def)
  have hc: "pushing closed_pipe = None \<and> \<not> closing closed_pipe"
    and dc: "doneClosed closed_pipe" and nc: "in_nil closed_pipe"
    by (simp_all add: closed_pipe_def new_pipe_def)
  from Push_nil_dropped_by_worker [of 1 "[]" "new_pipe 1 :: nat pipe" closed_pipe] hc dc nc
  have c7: "run [CallPush None, Handoff] closed_pipe = None"
    and c8: "run [CallPush None, PushDone] closed_pipe = Some (closed_pipe\<lparr> pushing := None \<rparr>)"
    by blast+
  from r c1 a b c2 c3 s c4 d c5 rb hb wb c6 rc hc dc nc c7 c8 show ?thesis by simp
qed

theorem Push_nil_blocks_counterexample:
  "map_option pushing
      (run_pipe 1 [CallPush (Some (1::nat)), Handoff, CallPush None]) = Some (Some None)
   \<and> run_pipe 1 [CallPush (Some (1::nat)), Handoff, CallPush None, Handoff] = None
   \<and> run_pipe 1 [CallPush (Some (1::nat)), Handoff, CallPush None, PushDone] = None
   \<and> map_option worker (run_pipe 1 [CallPush (None :: nat option), Handoff])
       = Some (AtNilCheck None)"
  by (simp add: run_pipe_def BufferedPipe_def new_pipe_def Push_call_def Push_handoff_def
        Push_done_def)

section \<open>Properties of IsStorable\<close>

lemma ToLower_SVIDStore [simp]: "ToLower ''SVIDStore'' = ''svidstore''"
  by (simp add: ToLower_def toLower_char_def)

text \<open>
  C8. \<open>IsStorable\<close> is true iff some selector has a type equal to the lower-cased
  marker; the selector's type itself is compared as it is written.
\<close>

theorem IsStorable_iff:
  "IsStorable svidstore_Type selectors
     \<longleftrightarrow> (\<exists>s \<in> set selectors. Type s = ToLower svidstore_Type)"
  by (induction selectors) auto

theorem IsStorable_iff_witness:
  "(\<exists>s \<in> set [\<lparr> Type = ''unix'', Value = ''uid:1000'' \<rparr>, \<lparr> Type = ''svidstore'', Value = ''store:aws'' \<rparr>].
       Type s = ToLower ''SVIDStore'')
   \<and> IsStorable ''SVIDStore''
        [\<lparr> Type = ''unix'', Value = ''uid:1000'' \<rparr>, \<lparr> Type = ''svidstore'', Value = ''store:aws'' \<rparr>]"
proof -
  have h: "\<exists>s \<in> set [\<lparr> Type = ''unix'', Value = ''uid:1000'' \<rparr>, \<lparr> Type = ''svidstore'', Value = ''store:aws'' \<rparr>].
       Type s = ToLower ''SVIDStore''"
    by simp
  with IsStorable_iff [of "''SVIDStore''"
         "[\<lparr> Type = ''unix'', Value = ''uid:1000'' \<rparr>, \<lparr> Type = ''svidstore'', Value = ''store:aws'' \<rparr>]"]
  show ?thesis by blast
qed

theorem IsStorable_case_counterexample:
  "EqualFold ''SVIDStore'' ''SVIDStore''
   \<and> \<not> IsStorable ''SVIDStore'' [\<lparr> Type = ''SVIDStore'', Value = ''store:aws'' \<rparr>]
   \<and> EqualFold ''SVIDSTORE'' ''SVIDStore''
   \<and> \<not> IsStorable ''SVIDStore'' [\<lparr> Type = ''SVIDSTORE'', Value = ''store:aws'' \<rparr>]"
  by (simp add: EqualFold_def ToLower_def toLower_char_def)

section \<open>Properties of KeysAndBundle\<close>

text \<open>
  C9. For every state and every bundle map, \<open>KeysAndBundle\<close> returns the state's
  certificate chain and key; the root CAs are those of the bundle stored for the
  configured trust domain, and the empty list when the map has no entry for it.
\<close>

theorem KeysAndBundle_result:
  "fst (KeysAndBundle RootCAs trustDomain s bundles) = SVID s
   \<and> fst (snd (KeysAndBundle RootCAs trustDomain s bundles)) = Key s
   \<and> (bundles trustDomain = None \<longrightarrow> snd (snd (KeysAndBundle RootCAs trustDomain s bundles)) = [])
   \<and> (\<forall>bundle. bundles trustDomain = Some (Some bundle) \<longrightarrow>
         snd (snd (KeysAndBundle RootCAs trustDomain s bundles)) = RootCAs bundle)"
  by (simp add: KeysAndBundle_def)

theorem KeysAndBundle_result_witness:
  "[''example.org'' \<mapsto> Some [7, 8 :: nat]] ''other.org'' = None
   \<and> KeysAndBundle (\<lambda>b. b) ''other.org'' \<lparr> SVID = [1, 2 :: nat], Key = ''key'' \<rparr>
        [''example.org'' \<mapsto> Some [7, 8]] = ([1, 2], ''key'', [])
   \<and> [''example.org'' \<mapsto> Some [7, 8 :: nat]] ''example.org'' = Some (Some [7, 8])
   \<and> KeysAndBundle (\<lambda>b. b) ''example.org'' \<lparr> SVID = [1, 2 :: nat], Key = ''key'' \<rparr>
        [''example.org'' \<mapsto> Some [7, 8]] = ([1, 2], ''key'', [7, 8])"
proof -
  have a: "[''example.org'' \<mapsto> Some [7, 8 :: nat]] ''other.org'' = None" by simp
  have p: "[''example.org'' \<mapsto> Some [7, 8 :: nat]] ''example.org'' = Some (Some [7, 8])" by simp
  from KeysAndBundle_result [of "\<lambda>b. b" "''other.org''" "\<lparr> SVID = [1, 2 :: nat], Key = ''key'' \<rparr>"
         "[''example.org'' \<mapsto> Some [7, 8 :: nat]]"] a
  have x: "KeysAndBundle (\<lambda>b. b) ''other.org'' \<lparr> SVID = [1, 2 :: nat], Key = ''key'' \<rparr>
        [''example.org'' \<mapsto> Some [7, 8]] = ([1, 2], ''key'', [])"
    by (metis State.select_convs(1) State.select_convs(2) prod.collapse)
  from KeysAndBundle_result [of "\<lambda>b. b" "''example.org''" "\<lparr> SVID = [1, 2 :: nat], Key = ''key'' \<rparr>"
         "[''example.org'' \<mapsto> Some [7, 8 :: nat]]"] p
  have y: "KeysAndBundle (\<lambda>b. b) ''example.org'' \<lparr> SVID = [1, 2 :: nat], Key = ''key'' \<rparr>
        [''example.org'' \<mapsto> Some [7, 8]] = ([1, 2], ''key'', [7, 8])"
    by (metis State.select_convs(1) State.select_convs(2) prod.collapse)
  from a x p y show ?thesis by blast
qed

end
